theory Spec2Isabelle
  imports Complex_Main
begin

section \<open>Errors\<close>

text \<open>
  The exceptions the evaluation engine can raise.  A function of the source that may
  raise returns \<open>error + 'a\<close>, with \<open>Inl\<close> for the exception.
\<close>

datatype error = TypeError | ValueError | OverflowError | ZeroDivisionError | IndexError

section \<open>Naive datetimes\<close>

text \<open>
  The source works on naive \<^verbatim>\<open>datetime.datetime\<close> values.  Such a value is
  determined by its proleptic Gregorian ordinal (\<^verbatim>\<open>toordinal()\<close>, day 1 is
  0001-01-01) and the time of day; it is modelled as the number of microseconds since
  midnight of ordinal 0, so that comparison of datetimes is comparison of integers and
  the difference of two datetimes is a \<^verbatim>\<open>timedelta\<close> counted in microseconds.
  The calendar functions follow the standard library's \<^verbatim>\<open>datetime.py\<close>.
\<close>

type_synonym datetime = int
type_synonym timedelta = int

definition US_PER_DAY :: int where
  "US_PER_DAY = 86400000000"

definition US_PER_MINUTE :: int where
  "US_PER_MINUTE = 60000000"

definition MAXORDINAL :: int where
  "MAXORDINAL = 3652059"

definition is_leap :: "int \<Rightarrow> bool" where
  "is_leap y = (y mod 4 = 0 \<and> (y mod 100 \<noteq> 0 \<or> y mod 400 = 0))"

definition days_before_year :: "int \<Rightarrow> int" where
  "days_before_year year = (let y = year - 1 in y * 365 + y div 4 - y div 100 + y div 400)"

definition DAYS_IN_MONTH :: "int list" where
  "DAYS_IN_MONTH = [-1, 31, 28, 31, 30, 31, 30, 31, 31, 30, 31, 30, 31]"

definition DAYS_BEFORE_MONTH :: "int list" where
  "DAYS_BEFORE_MONTH = [-1, 0, 31, 59, 90, 120, 151, 181, 212, 243, 273, 304, 334]"

definition days_in_month :: "int \<Rightarrow> int \<Rightarrow> int" where
  "days_in_month year month =
     (if month = 2 \<and> is_leap year then 29 else DAYS_IN_MONTH ! nat month)"

definition days_before_month :: "int \<Rightarrow> int \<Rightarrow> int" where
  "days_before_month year month =
     DAYS_BEFORE_MONTH ! nat month + (if month > 2 \<and> is_leap year then 1 else 0)"

definition ymd2ord :: "int \<Rightarrow> int \<Rightarrow> int \<Rightarrow> int" where
  "ymd2ord year month day = days_before_year year + days_before_month year month + day"

definition month_day :: "bool \<Rightarrow> int \<Rightarrow> int \<times> int" where
  "month_day leapyear n =
     (let month = (n + 50) div 32;
          preceding = DAYS_BEFORE_MONTH ! nat month + (if month > 2 \<and> leapyear then 1 else 0)
      in if preceding > n
         then (let month' = month - 1;
                   preceding' = preceding
                     - (DAYS_IN_MONTH ! nat month' + (if month' = 2 \<and> leapyear then 1 else 0))
               in (month', n - preceding' + 1))
         else (month, n - preceding + 1))"

definition ord2ymd :: "int \<Rightarrow> int \<times> int \<times> int" where
  "ord2ymd n0 =
     (let n = n0 - 1;
          n400 = n div 146097; n = n mod 146097;
          n100 = n div 36524; n = n mod 36524;
          n4 = n div 1461; n = n mod 1461;
          n1 = n div 365; n = n mod 365;
          year = n400 * 400 + 1 + n100 * 100 + n4 * 4 + n1
      in if n1 = 4 \<or> n100 = 4 then (year - 1, 12, 31)
         else (let leapyear = (n1 = 3 \<and> (n4 \<noteq> 24 \<or> n100 = 3));
                   (month, day) = month_day leapyear n
               in (year, month, day)))"

definition toordinal :: "datetime \<Rightarrow> int" where
  "toordinal dt = dt div US_PER_DAY"

definition time_of_day :: "datetime \<Rightarrow> int" where
  "time_of_day dt = dt mod US_PER_DAY"

definition year :: "datetime \<Rightarrow> int" where
  "year dt = fst (ord2ymd (toordinal dt))"

definition month :: "datetime \<Rightarrow> int" where
  "month dt = fst (snd (ord2ymd (toordinal dt)))"

definition day :: "datetime \<Rightarrow> int" where
  "day dt = snd (snd (ord2ymd (toordinal dt)))"

definition weekday :: "datetime \<Rightarrow> int" where
  "weekday dt = (toordinal dt + 6) mod 7"

text \<open>
  \<^verbatim>\<open>datetime.datetime(year, month, day)\<close>: midnight of that date, \<^verbatim>\<open>ValueError\<close>
  when a field is out of range.
\<close>

definition mk_datetime :: "int \<Rightarrow> int \<Rightarrow> int \<Rightarrow> error + datetime" where
  "mk_datetime y m d =
     (if 1 \<le> y \<and> y \<le> 9999 \<and> 1 \<le> m \<and> m \<le> 12 \<and> 1 \<le> d \<and> d \<le> days_in_month y m
      then Inr (ymd2ord y m d * US_PER_DAY)
      else Inl ValueError)"

text \<open>
  \<^verbatim>\<open>dt + datetime.timedelta(days=n)\<close> (and \<^verbatim>\<open>dt - timedelta(days=n)\<close> for a
  negative \<open>n\<close>): \<^verbatim>\<open>OverflowError\<close> when the result leaves the supported range.
\<close>

definition add_days :: "datetime \<Rightarrow> int \<Rightarrow> error + datetime" where
  "add_days dt n =
     (let r = dt + n * US_PER_DAY
      in if 0 < toordinal r \<and> toordinal r \<le> MAXORDINAL then Inr r else Inl OverflowError)"

text \<open>\<^verbatim>\<open>timedelta.days\<close> and \<^verbatim>\<open>timedelta.total_seconds() / 60\<close>.\<close>

definition days :: "timedelta \<Rightarrow> int" where
  "days td = td div US_PER_DAY"

definition total_minutes :: "timedelta \<Rightarrow> rat" where
  "total_minutes td = of_int td / of_int US_PER_MINUTE"

text \<open>A datetime written out by its fields, for concrete inputs.\<close>

definition datetime_of :: "int \<Rightarrow> int \<Rightarrow> int \<Rightarrow> int \<Rightarrow> int \<Rightarrow> int \<Rightarrow> datetime" where
  "datetime_of y m d hh mm ss =
     ymd2ord y m d * US_PER_DAY + ((hh * 60 + mm) * 60 + ss) * 1000000"

text \<open>
  A timestamp field of a promise or of an evidence item, as
  \<^verbatim>\<open>datetime.datetime.fromisoformat(d.get(key))\<close> sees it: the key is absent
  (\<^verbatim>\<open>TypeError\<close>), the string does not parse (\<^verbatim>\<open>ValueError\<close>), or it is the
  ISO rendering of a naive datetime (strings with a time zone offset are not modelled).
\<close>

datatype iso_field = Missing | Malformed | IsoString datetime

fun fromisoformat :: "iso_field \<Rightarrow> error + datetime" where
  "fromisoformat Missing = Inl TypeError"
| "fromisoformat Malformed = Inl ValueError"
| "fromisoformat (IsoString dt) = Inr dt"

section \<open>Evidence\<close>

text \<open>
  A heart-rate sample of \<^verbatim>\<open>heart_rate_data\<close>; the client writes the timestamps
  itself with \<^verbatim>\<open>isoformat()\<close>, so they are kept parsed.
\<close>

record sample =
  timestamp :: datetime
  heart_rate :: int

text \<open>
  An exercise session or an elevated heart-rate period: the keys the evaluators read.
  \<^verbatim>\<open>duration_minutes\<close> and \<^verbatim>\<open>average_heart_rate\<close> are read with
  \<^verbatim>\<open>.get(key, 0)\<close>, hence optional.  Floats are modelled as rationals.
\<close>

record item =
  start_time :: iso_field
  end_time :: iso_field
  duration_minutes :: "rat option"
  average_heart_rate :: "rat option"

section \<open>Elevated-interval detector (terra\_api/client.py)\<close>

definition calculate_average_hr :: "sample list \<Rightarrow> datetime \<Rightarrow> datetime \<Rightarrow> rat" where
  "calculate_average_hr hr_data start_t end_t =
     (let relevant_data =
            map heart_rate (filter (\<lambda>d. start_t \<le> timestamp d \<and> timestamp d \<le> end_t) hr_data)
      in if relevant_data = [] then 0
         else of_int (sum_list relevant_data) / of_int (int (length relevant_data)))"

definition elevated_period :: "sample list \<Rightarrow> datetime \<Rightarrow> datetime \<Rightarrow> rat \<Rightarrow> item" where
  "elevated_period hr_data s t period_duration =
     \<lparr>start_time = IsoString s, end_time = IsoString t,
      duration_minutes = Some period_duration,
      average_heart_rate = Some (calculate_average_hr hr_data s t)\<rparr>"

text \<open>
  The \<^verbatim>\<open>for\<close> loop of \<^verbatim>\<open>check_continuous_elevated_heart_rate\<close>: the state is
  \<^verbatim>\<open>(elevated_periods, current_period_start)\<close>.
\<close>

fun scan_hr :: "sample list \<Rightarrow> int \<Rightarrow> int \<Rightarrow> sample list
    \<Rightarrow> item list \<times> datetime option \<Rightarrow> item list \<times> datetime option" where
  "scan_hr hr_data threshold min_duration_minutes [] st = st"
| "scan_hr hr_data threshold min_duration_minutes (data_point # rest) (elevated_periods, cur) =
     (if heart_rate data_point \<ge> threshold
      then scan_hr hr_data threshold min_duration_minutes rest
             (elevated_periods,
              (case cur of None \<Rightarrow> Some (timestamp data_point) | Some s \<Rightarrow> Some s))
      else (case cur of
              None \<Rightarrow> scan_hr hr_data threshold min_duration_minutes rest (elevated_periods, None)
            | Some s \<Rightarrow>
                (let period_duration = total_minutes (timestamp data_point - s)
                 in scan_hr hr_data threshold min_duration_minutes rest
                      (if period_duration \<ge> of_int min_duration_minutes
                       then elevated_periods
                              @ [elevated_period hr_data s (timestamp data_point) period_duration]
                       else elevated_periods,
                       None))))"

text \<open>
  The detector on the samples \<open>hr_data\<close> (in the source they come from
  \<^verbatim>\<open>get_heart_rate_data\<close>).  \<^verbatim>\<open>hr_data[-1]\<close> raises on an empty list.
\<close>

definition check_continuous_elevated_heart_rate ::
    "sample list \<Rightarrow> int \<Rightarrow> int \<Rightarrow> error + item list" where
  "check_continuous_elevated_heart_rate hr_data threshold min_duration_minutes =
     (case scan_hr hr_data threshold min_duration_minutes hr_data ([], None) of
        (elevated_periods, None) \<Rightarrow> Inr elevated_periods
      | (elevated_periods, Some s) \<Rightarrow>
          (case hr_data of
             [] \<Rightarrow> Inl IndexError
           | _ \<Rightarrow>
             (let last_timestamp = timestamp (last hr_data);
                  period_duration = total_minutes (last_timestamp - s)
              in Inr (if period_duration \<ge> of_int min_duration_minutes
                      then elevated_periods
                             @ [elevated_period hr_data s last_timestamp period_duration]
                      else elevated_periods))))"

text \<open>Samples with the given heart rates, one minute apart, the first at \<open>t0\<close>.\<close>

fun minute_series :: "datetime \<Rightarrow> int list \<Rightarrow> sample list" where
  "minute_series t0 [] = []"
| "minute_series t0 (hr # hrs) =
     \<lparr>timestamp = t0, heart_rate = hr\<rparr> # minute_series (t0 + US_PER_MINUTE) hrs"

section \<open>Promises, evidence and verdicts\<close>

text \<open>
  A promise is a dictionary; every key the evaluators read is a field, \<open>None\<close> when
  the key is absent.  The numeric parameters are integers, as in the documented examples.
\<close>

record promise =
  p_type :: "string option"
  p_frequency :: "int option"
  p_period :: "string option"
  p_heart_rate_threshold :: "int option"
  p_duration_minutes :: "int option"
  p_max_gap_days :: "int option"
  p_start_date :: iso_field
  p_end_date :: iso_field

record evidence =
  heart_rate_data :: "sample list"
  exercise_sessions :: "item list option"
  elevated_hr_periods :: "item list option"

text \<open>
  The entries of \<^verbatim>\<open>details\<close>.  Datetimes are kept as values where the source
  stores their \<^verbatim>\<open>isoformat()\<close> rendering.
\<close>

record period_detail =
  pd_period_start :: datetime
  pd_period_end :: datetime
  pd_sessions_count :: nat
  pd_required_count :: int
  pd_fulfilled :: bool

record gap =
  gap_start :: datetime
  gap_end :: datetime
  gap_days :: int

datatype details =
    NoDetails
  | FrequencyDetails "period_detail list" nat nat
  | DurationDetails "period_detail list" nat nat nat
  | ConsistencyDetails int nat "gap list"
  | LlmFrequencyDetails nat int string
  | LlmDurationDetails nat int int
  | LlmNote string

text \<open>\<^verbatim>\<open>details["total_periods"]\<close> and \<^verbatim>\<open>details["fulfilled_periods"]\<close>.\<close>

fun total_periods :: "details \<Rightarrow> nat option" where
  "total_periods (FrequencyDetails ps t f) = Some t"
| "total_periods (DurationDetails ps t f q) = Some t"
| "total_periods _ = None"


record verdict =
  fulfilled :: bool
  confidence :: rat
  reasoning :: string
  details :: details

text \<open>
  The result of an evaluation: \<open>None\<close> when the call does not return, \<open>Some (Inl e)\<close>
  when it raises \<open>e\<close>, \<open>Some (Inr v)\<close> when it returns the verdict \<open>v\<close>.
\<close>

type_synonym result = "(error + verdict) option"

text \<open>\<^verbatim>\<open>d.get(key, default)\<close>.\<close>

definition get_default :: "'a option \<Rightarrow> 'a \<Rightarrow> 'a" where
  "get_default field dflt = (case field of None \<Rightarrow> dflt | Some v \<Rightarrow> v)"

text \<open>Python's true division, which raises on a zero divisor.\<close>

definition py_truediv :: "rat \<Rightarrow> rat \<Rightarrow> error + rat" where
  "py_truediv a b = (if b = 0 then Inl ZeroDivisionError else Inr (a / b))"

subsection \<open>Rendering of numbers in the reasoning text\<close>

function str_nat :: "nat \<Rightarrow> string" where
  "str_nat n = (if n < 10 then [''0123456789'' ! n]
                else str_nat (n div 10) @ [''0123456789'' ! (n mod 10)])"
  by pat_completeness auto
termination
  by (relation "measure id") auto

definition str_int :: "int \<Rightarrow> string" where
  "str_int i = (if i < 0 then ''-'' @ str_nat (nat (- i)) else str_nat (nat i))"

text \<open>
  The fulfilment percentage is a float and is printed with the format
  \<^verbatim>\<open>:.0%\<close>.  \<open>round_double\<close> rounds a non-negative number to the nearest
  IEEE double (53 significant bits, ties to even, subnormals below \<open>2 ^ -1022\<close>; the
  values met here are at most 100, so there is no overflow).  The format multiplies the
  double by 100 in double arithmetic and prints it with no decimals, which rounds the
  double to an integer with ties to even.
\<close>

definition round_half_even :: "rat \<Rightarrow> int" where
  "round_half_even x =
     (let f = \<lfloor>x\<rfloor>; d = x - of_int f
      in if d < 1 / 2 then f else if d > 1 / 2 then f + 1
         else if even f then f else f + 1)"

function bit_length :: "int \<Rightarrow> int" where
  "bit_length n = (if n \<le> 0 then 0 else 1 + bit_length (n div 2))"
  by pat_completeness auto
termination
  by (relation "measure nat") auto

definition pow2 :: "int \<Rightarrow> rat" where
  "pow2 e = (if e \<ge> 0 then 2 ^ nat e else 1 / 2 ^ nat (- e))"

definition floor_log2 :: "rat \<Rightarrow> int" where
  "floor_log2 x =
     (let (p, q) = quotient_of x;
          e = bit_length p - bit_length q
      in if pow2 e \<le> x then e else e - 1)"

definition round_double :: "rat \<Rightarrow> rat" where
  "round_double x =
     (if x \<le> 0 then 0
      else (let e = max (floor_log2 x) (- 1022); quantum = pow2 (e - 52)
            in of_int (round_half_even (x / quantum)) * quantum))"

definition fmt_percent :: "rat \<Rightarrow> string" where
  "fmt_percent p = str_int (round_half_even (round_double (round_double p * 100))) @ ''%''"

definition str_type :: "string option \<Rightarrow> string" where
  "str_type t = (case t of None \<Rightarrow> ''None'' | Some s \<Rightarrow> s)"

section \<open>Period segmenter (evaluator/rule\_based.py)\<close>

text \<open>
  The dictionary \<^verbatim>\<open>periods\<close> keeps insertion order and is iterated over, so it is
  an association list: \<open>dict_set\<close> is \<^verbatim>\<open>periods[k] = v\<close>, \<open>dict_append\<close> is
  \<^verbatim>\<open>periods[k].append(x)\<close> for a key that is present.
\<close>

type_synonym periods = "(datetime \<times> item list) list"

fun dict_set :: "('k \<times> 'v) list \<Rightarrow> 'k \<Rightarrow> 'v \<Rightarrow> ('k \<times> 'v) list" where
  "dict_set [] k v = [(k, v)]"
| "dict_set ((k', v') # kvs) k v =
     (if k' = k then (k', v) # kvs else (k', v') # dict_set kvs k v)"

fun dict_append :: "('k \<times> 'v list) list \<Rightarrow> 'k \<Rightarrow> 'v \<Rightarrow> ('k \<times> 'v list) list" where
  "dict_append [] k x = []"
| "dict_append ((k', xs) # kvs) k x =
     (if k' = k then (k', xs @ [x]) # kvs else (k', xs) # dict_append kvs k x)"

definition get_period_start :: "datetime \<Rightarrow> string \<Rightarrow> error + datetime" where
  "get_period_start date period =
     (if period = ''day'' then mk_datetime (year date) (month date) (day date)
      else if period = ''week'' then add_days date (- weekday date)
      else if period = ''month'' then mk_datetime (year date) (month date) 1
      else Inr date)"

text \<open>\<^verbatim>\<open>dt - datetime.timedelta(microseconds=1)\<close>.\<close>

definition minus_microsecond :: "datetime \<Rightarrow> error + datetime" where
  "minus_microsecond dt =
     (let r = dt - 1
      in if 0 < toordinal r \<and> toordinal r \<le> MAXORDINAL then Inr r else Inl OverflowError)"

definition get_period_end :: "datetime \<Rightarrow> string \<Rightarrow> error + datetime" where
  "get_period_end period_start period =
     (if period = ''day'' then
        (case add_days period_start 1 of Inl e \<Rightarrow> Inl e | Inr d \<Rightarrow> minus_microsecond d)
      else if period = ''week'' then
        (case add_days period_start 7 of Inl e \<Rightarrow> Inl e | Inr d \<Rightarrow> minus_microsecond d)
      else if period = ''month'' then
        (case (if month period_start = 12 then mk_datetime (year period_start + 1) 1 1
               else mk_datetime (year period_start) (month period_start + 1) 1) of
           Inl e \<Rightarrow> Inl e
         | Inr next_month \<Rightarrow> minus_microsecond next_month)
      else (case add_days period_start 1 of Inl e \<Rightarrow> Inl e | Inr d \<Rightarrow> minus_microsecond d))"

text \<open>
  The step at the end of the body of the \<^verbatim>\<open>while\<close> loop of
  \<^verbatim>\<open>_group_by_period\<close>; for any other period name no branch assigns
  \<^verbatim>\<open>current_date\<close>.
\<close>

definition next_date :: "datetime \<Rightarrow> string \<Rightarrow> error + datetime" where
  "next_date current_date period =
     (if period = ''day'' then add_days current_date 1
      else if period = ''week'' then add_days current_date 7
      else if period = ''month'' then
        (if month current_date = 12 then mk_datetime (year current_date + 1) 1 1
         else mk_datetime (year current_date) (month current_date + 1) 1)
      else Inr current_date)"

text \<open>
  The \<^verbatim>\<open>while current_date <= end_date\<close> loop.  It does not end when the period
  name is none of day, week and month, so it is a partial function.
\<close>

partial_function (option) generate_periods ::
    "string \<Rightarrow> datetime \<Rightarrow> datetime \<Rightarrow> periods \<Rightarrow> (error + periods) option" where
  "generate_periods period end_date current_date periods =
     (if current_date \<le> end_date then
        (case get_period_start current_date period of
           Inl e \<Rightarrow> Some (Inl e)
         | Inr period_start \<Rightarrow>
             (case next_date current_date period of
                Inl e \<Rightarrow> Some (Inl e)
              | Inr current_date' \<Rightarrow>
                  generate_periods period end_date current_date'
                    (dict_set periods period_start [])))
      else Some (Inr periods))"

declare generate_periods.simps [code]

text \<open>
  The \<^verbatim>\<open>for item in items\<close> loop; both callers bucket by the key
  \<^verbatim>\<open>start_time\<close>.
\<close>

fun group_items :: "string \<Rightarrow> item list \<Rightarrow> periods \<Rightarrow> error + periods" where
  "group_items period [] periods = Inr periods"
| "group_items period (it # items) periods =
     (case fromisoformat (start_time it) of
        Inl e \<Rightarrow> Inl e
      | Inr item_date \<Rightarrow>
          (case get_period_start item_date period of
             Inl e \<Rightarrow> Inl e
           | Inr period_start \<Rightarrow>
               group_items period items
                 (if period_start \<in> set (map fst periods)
                  then dict_append periods period_start it else periods)))"

definition group_by_period ::
    "item list \<Rightarrow> string \<Rightarrow> datetime \<Rightarrow> datetime \<Rightarrow> (error + periods) option" where
  "group_by_period items period start_date end_date =
     (case generate_periods period end_date start_date [] of
        None \<Rightarrow> None
      | Some (Inl e) \<Rightarrow> Some (Inl e)
      | Some (Inr periods) \<Rightarrow> Some (group_items period items periods))"

section \<open>Rule evaluators (evaluator/rule\_based.py)\<close>

text \<open>
  The \<^verbatim>\<open>for period_start, sessions in periods.items()\<close> loop shared by the
  frequency and the duration evaluator: the state is \<^verbatim>\<open>fulfilled_periods\<close> and
  \<^verbatim>\<open>details["periods"]\<close>.
\<close>

fun check_periods :: "string \<Rightarrow> int \<Rightarrow> periods \<Rightarrow> nat \<times> period_detail list
    \<Rightarrow> error + nat \<times> period_detail list" where
  "check_periods period frequency [] st = Inr st"
| "check_periods period frequency ((pstart, sessions) # rest) (fulfilled_count, pds) =
     (case get_period_end pstart period of
        Inl e \<Rightarrow> Inl e
      | Inr pend \<Rightarrow>
          (let pf = (int (length sessions) \<ge> frequency)
           in check_periods period frequency rest
                (fulfilled_count + (if pf then 1 else 0),
                 pds @ [\<lparr>pd_period_start = pstart, pd_period_end = pend,
                          pd_sessions_count = length sessions,
                          pd_required_count = frequency, pd_fulfilled = pf\<rparr>])))"

definition fulfillment :: "nat \<Rightarrow> nat \<Rightarrow> error + rat" where
  "fulfillment fulfilled_count total_count =
     (if total_count > 0 then py_truediv (of_nat fulfilled_count) (of_nat total_count) else Inr 0)"

definition frequency_reasoning :: "int \<Rightarrow> string \<Rightarrow> nat \<Rightarrow> nat \<Rightarrow> rat \<Rightarrow> string" where
  "frequency_reasoning frequency period fulfilled_count total_count pct =
     ''The promise required exercising '' @ str_int frequency @ '' times per '' @ period
     @ ''. You met this requirement in '' @ str_nat fulfilled_count @ '' out of ''
     @ str_nat total_count @ '' '' @ period @ ''s ('' @ fmt_percent pct @ '').''"

definition evaluate_exercise_frequency :: "promise \<Rightarrow> evidence \<Rightarrow> result" where
  "evaluate_exercise_frequency promise evidence =
     (let frequency = get_default (p_frequency promise) 1;
          period = get_default (p_period promise) ''week''
      in case fromisoformat (p_start_date promise) of
           Inl e \<Rightarrow> Some (Inl e)
         | Inr start_date \<Rightarrow>
         (case fromisoformat (p_end_date promise) of
           Inl e \<Rightarrow> Some (Inl e)
         | Inr end_date \<Rightarrow>
         (case group_by_period (get_default (exercise_sessions evidence) [])
                 period start_date end_date of
           None \<Rightarrow> None
         | Some (Inl e) \<Rightarrow> Some (Inl e)
         | Some (Inr periods) \<Rightarrow>
         (case check_periods period frequency periods (0, []) of
           Inl e \<Rightarrow> Some (Inl e)
         | Inr (fulfilled_count, pds) \<Rightarrow>
         (case fulfillment fulfilled_count (length periods) of
           Inl e \<Rightarrow> Some (Inl e)
         | Inr fulfillment_percentage \<Rightarrow>
             Some (Inr \<lparr>fulfilled = (fulfillment_percentage \<ge> 1),
                        confidence = 1,
                        reasoning = frequency_reasoning frequency period fulfilled_count
                                      (length periods) fulfillment_percentage,
                        details = FrequencyDetails pds (length periods) fulfilled_count\<rparr>))))))"

definition qualifying :: "int \<Rightarrow> int \<Rightarrow> item \<Rightarrow> bool" where
  "qualifying heart_rate_threshold min_minutes p =
     (get_default (average_heart_rate p) 0 \<ge> of_int heart_rate_threshold
      \<and> get_default (duration_minutes p) 0 \<ge> of_int min_minutes)"

definition duration_reasoning ::
    "int \<Rightarrow> int \<Rightarrow> int \<Rightarrow> string \<Rightarrow> nat \<Rightarrow> nat \<Rightarrow> rat \<Rightarrow> string" where
  "duration_reasoning heart_rate_threshold min_minutes frequency period fulfilled_count total_count pct =
     ''The promise required exercising with a heart rate above ''
     @ str_int heart_rate_threshold @ '' bpm for at least '' @ str_int min_minutes
     @ '' minutes, '' @ str_int frequency @ '' times per '' @ period
     @ ''. You met this requirement in '' @ str_nat fulfilled_count @ '' out of ''
     @ str_nat total_count @ '' '' @ period @ ''s ('' @ fmt_percent pct @ '').''"

definition evaluate_exercise_duration :: "promise \<Rightarrow> evidence \<Rightarrow> result" where
  "evaluate_exercise_duration promise evidence =
     (let heart_rate_threshold = get_default (p_heart_rate_threshold promise) 120;
          min_minutes = get_default (p_duration_minutes promise) 25;
          frequency = get_default (p_frequency promise) 1;
          period = get_default (p_period promise) ''week''
      in case fromisoformat (p_start_date promise) of
           Inl e \<Rightarrow> Some (Inl e)
         | Inr start_date \<Rightarrow>
         (case fromisoformat (p_end_date promise) of
           Inl e \<Rightarrow> Some (Inl e)
         | Inr end_date \<Rightarrow>
         (let qualifying_periods =
                filter (qualifying heart_rate_threshold min_minutes)
                  (get_default (elevated_hr_periods evidence) [])
          in case group_by_period qualifying_periods period start_date end_date of
           None \<Rightarrow> None
         | Some (Inl e) \<Rightarrow> Some (Inl e)
         | Some (Inr periods) \<Rightarrow>
         (case check_periods period frequency periods (0, []) of
           Inl e \<Rightarrow> Some (Inl e)
         | Inr (fulfilled_count, pds) \<Rightarrow>
         (case fulfillment fulfilled_count (length periods) of
           Inl e \<Rightarrow> Some (Inl e)
         | Inr fulfillment_percentage \<Rightarrow>
             Some (Inr \<lparr>fulfilled = (fulfillment_percentage \<ge> 1),
                        confidence = 1,
                        reasoning = duration_reasoning heart_rate_threshold min_minutes frequency
                                      period fulfilled_count (length periods)
                                      fulfillment_percentage,
                        details = DurationDetails pds (length periods) fulfilled_count
                                    (length qualifying_periods)\<rparr>))))))"

text \<open>
  \<^verbatim>\<open>sorted(exercise_sessions, key=...)\<close>: the keys are computed first, in list
  order, and the sort is stable.
\<close>

fun sort_keys :: "item list \<Rightarrow> error + (datetime \<times> item) list" where
  "sort_keys [] = Inr []"
| "sort_keys (s # ss) =
     (case fromisoformat (start_time s) of
        Inl e \<Rightarrow> Inl e
      | Inr k \<Rightarrow> (case sort_keys ss of Inl e \<Rightarrow> Inl e | Inr ks \<Rightarrow> Inr ((k, s) # ks)))"

definition sorted_sessions :: "item list \<Rightarrow> error + item list" where
  "sorted_sessions sessions =
     (case sort_keys sessions of
        Inl e \<Rightarrow> Inl e
      | Inr ks \<Rightarrow> Inr (map snd (sort_key fst ks)))"

text \<open>
  The \<^verbatim>\<open>for session in sorted_sessions\<close> loop: the state is \<^verbatim>\<open>gaps\<close> and
  \<^verbatim>\<open>last_session_end\<close>.
\<close>

fun find_gaps :: "int \<Rightarrow> item list \<Rightarrow> gap list \<times> datetime \<Rightarrow> error + gap list \<times> datetime" where
  "find_gaps max_gap [] st = Inr st"
| "find_gaps max_gap (session # rest) (gaps, last_session_end) =
     (case fromisoformat (start_time session) of
        Inl e \<Rightarrow> Inl e
      | Inr session_start \<Rightarrow>
          (let gd = days (session_start - last_session_end);
               gaps' = (if gd > max_gap
                        then gaps @ [\<lparr>gap_start = last_session_end, gap_end = session_start,
                                       gap_days = gd\<rparr>]
                        else gaps)
           in case fromisoformat (end_time session) of
                Inl e \<Rightarrow> Inl e
              | Inr session_end \<Rightarrow> find_gaps max_gap rest (gaps', session_end)))"

definition consistency_reasoning :: "int \<Rightarrow> nat \<Rightarrow> string" where
  "consistency_reasoning max_gap n =
     ''The promise required never going more than '' @ str_int max_gap
     @ '' days without exercise. ''
     @ (if n = 0 then ''No gaps were found.''
        else ''Found '' @ str_nat n @ '' gaps exceeding '' @ str_int max_gap @ '' days.'')"

definition evaluate_exercise_consistency :: "promise \<Rightarrow> evidence \<Rightarrow> result" where
  "evaluate_exercise_consistency promise evidence =
     (let max_gap = get_default (p_max_gap_days promise) 7
      in case fromisoformat (p_start_date promise) of
           Inl e \<Rightarrow> Some (Inl e)
         | Inr start_date \<Rightarrow>
         (case fromisoformat (p_end_date promise) of
           Inl e \<Rightarrow> Some (Inl e)
         | Inr end_date \<Rightarrow>
         (case sorted_sessions (get_default (exercise_sessions evidence) []) of
           Inl e \<Rightarrow> Some (Inl e)
         | Inr sessions \<Rightarrow>
         (case find_gaps max_gap sessions ([], start_date) of
           Inl e \<Rightarrow> Some (Inl e)
         | Inr (gaps, last_session_end) \<Rightarrow>
             (let final_gap_days = days (end_date - last_session_end);
                  gaps' = (if final_gap_days > max_gap
                           then gaps @ [\<lparr>gap_start = last_session_end, gap_end = end_date,
                                          gap_days = final_gap_days\<rparr>]
                           else gaps)
              in Some (Inr \<lparr>fulfilled = (length gaps' = 0),
                            confidence = 1,
                            reasoning = consistency_reasoning max_gap (length gaps'),
                            details = ConsistencyDetails max_gap (length gaps') gaps'\<rparr>))))))"

text \<open>
  The evaluator object: its only attribute is the table \<^verbatim>\<open>rule_handlers\<close>, filled
  by \<^verbatim>\<open>__init__\<close>.
\<close>

record rule_based_evaluator =
  rule_handlers :: "(string \<times> (promise \<Rightarrow> evidence \<Rightarrow> result)) list"

definition init_evaluator :: rule_based_evaluator where
  "init_evaluator =
     \<lparr>rule_handlers =
        [(''exercise_frequency'', evaluate_exercise_frequency),
         (''exercise_duration'', evaluate_exercise_duration),
         (''exercise_consistency'', evaluate_exercise_consistency)]\<rparr>"

definition unknown_type_verdict :: "string option \<Rightarrow> verdict" where
  "unknown_type_verdict promise_type =
     \<lparr>fulfilled = False, confidence = 0,
      reasoning = ''Unknown promise type: '' @ str_type promise_type,
      details = NoDetails\<rparr>"

definition evaluate :: "rule_based_evaluator \<Rightarrow> promise \<Rightarrow> evidence \<Rightarrow> result" where
  "evaluate self promise evidence =
     (let promise_type = p_type promise
      in case promise_type of
           None \<Rightarrow> Some (Inr (unknown_type_verdict promise_type))
         | Some t \<Rightarrow>
             (case map_of (rule_handlers self) t of
                None \<Rightarrow> Some (Inr (unknown_type_verdict promise_type))
              | Some handler \<Rightarrow> handler promise evidence))"

section \<open>Interpretive evaluator (evaluator/llm\_based.py)\<close>

text \<open>
  The evidence summary, one entry per line of text.  A week is keyed by the date of its
  Monday (the ordinal stands for the \<^verbatim>\<open>%Y-%m-%d\<close> rendering); the averages are
  kept as numbers.
\<close>

datatype summary_line =
    SessionsFound nat
  | WeekSessions int nat
  | PeriodsFound nat
  | WeekPeriods int nat rat rat

fun group_weeks :: "item list \<Rightarrow> (int \<times> item list) list \<Rightarrow> error + (int \<times> item list) list" where
  "group_weeks [] weeks = Inr weeks"
| "group_weeks (session # rest) weeks =
     (case fromisoformat (start_time session) of
        Inl e \<Rightarrow> Inl e
      | Inr st \<Rightarrow>
          (case add_days st (- weekday st) of
             Inl e \<Rightarrow> Inl e
           | Inr week_start \<Rightarrow>
               (let week_key = toordinal week_start;
                    weeks' = (if week_key \<notin> set (map fst weeks)
                              then dict_set weeks week_key [] else weeks)
                in group_weeks rest (dict_append weeks' week_key session))))"

fun week_period_lines :: "(int \<times> item list) list \<Rightarrow> error + summary_line list" where
  "week_period_lines [] = Inr []"
| "week_period_lines ((week_key, ps) # rest) =
     (case py_truediv (sum_list (map (\<lambda>p. get_default (duration_minutes p) 0) ps))
             (of_nat (length ps)) of
        Inl e \<Rightarrow> Inl e
      | Inr avg_duration \<Rightarrow>
          (case py_truediv (sum_list (map (\<lambda>p. get_default (average_heart_rate p) 0) ps))
                  (of_nat (length ps)) of
             Inl e \<Rightarrow> Inl e
           | Inr avg_hr \<Rightarrow>
               (case week_period_lines rest of
                  Inl e \<Rightarrow> Inl e
                | Inr ls \<Rightarrow> Inr (WeekPeriods week_key (length ps) avg_duration avg_hr # ls))))"

definition summarize_evidence :: "evidence \<Rightarrow> error + summary_line list" where
  "summarize_evidence evidence =
     (let sessions = get_default (exercise_sessions evidence) [];
          elevated = get_default (elevated_hr_periods evidence) []
      in case (if sessions \<noteq> []
               then (case group_weeks sessions [] of
                       Inl e \<Rightarrow> Inl e
                     | Inr weeks \<Rightarrow>
                         Inr (SessionsFound (length sessions)
                              # map (\<lambda>(k, ss). WeekSessions k (length ss)) weeks))
               else Inr []) of
           Inl e \<Rightarrow> Inl e
         | Inr summary \<Rightarrow>
             (if elevated \<noteq> []
              then (case group_weeks elevated [] of
                      Inl e \<Rightarrow> Inl e
                    | Inr weeks \<Rightarrow>
                        (case week_period_lines weeks of
                           Inl e \<Rightarrow> Inl e
                         | Inr ls \<Rightarrow> Inr (summary @ PeriodsFound (length elevated) # ls)))
              else Inr summary))"

text \<open>The prompt: the promise and the evidence summary in a fixed text.\<close>

definition format_prompt :: "promise \<Rightarrow> evidence \<Rightarrow> error + promise \<times> summary_line list" where
  "format_prompt promise evidence =
     (case summarize_evidence evidence of
        Inl e \<Rightarrow> Inl e
      | Inr evidence_summary \<Rightarrow> Inr (promise, evidence_summary))"

definition meets_text :: "bool \<Rightarrow> string" where
  "meets_text ok = (if ok then ''This meets the criteria.''
                    else ''This does not meet the criteria.'')"

definition mock_llm_call ::
    "promise \<times> summary_line list \<Rightarrow> promise \<Rightarrow> evidence \<Rightarrow> verdict" where
  "mock_llm_call prompt promise evidence =
     (let promise_type = get_default (p_type promise) []
      in if promise_type = ''exercise_frequency'' then
           (let frequency = get_default (p_frequency promise) 1;
                period = get_default (p_period promise) ''week'';
                sessions = get_default (exercise_sessions evidence) [];
                ok = (int (length sessions) \<ge> frequency)
            in \<lparr>fulfilled = ok, confidence = 85 / 100,
                reasoning =
                  ''Based on the evidence, the user promised to exercise '' @ str_int frequency
                  @ '' times per '' @ period @ '' and the data shows ''
                  @ str_nat (length sessions) @ '' exercise sessions. '' @ meets_text ok,
                details = LlmFrequencyDetails (length sessions) frequency period\<rparr>)
         else if promise_type = ''exercise_duration'' then
           (let heart_rate_threshold = get_default (p_heart_rate_threshold promise) 120;
                min_minutes = get_default (p_duration_minutes promise) 25;
                qualifying_periods =
                  filter (qualifying heart_rate_threshold min_minutes)
                    (get_default (elevated_hr_periods evidence) []);
                ok = (length qualifying_periods > 0)
            in \<lparr>fulfilled = ok, confidence = 9 / 10,
                reasoning =
                  ''The user promised to maintain a heart rate above ''
                  @ str_int heart_rate_threshold @ '' bpm for at least '' @ str_int min_minutes
                  @ '' minutes. The data shows '' @ str_nat (length qualifying_periods)
                  @ '' periods meeting these criteria. '' @ meets_text ok,
                details = LlmDurationDetails (length qualifying_periods) heart_rate_threshold
                            min_minutes\<rparr>)
         else
           \<lparr>fulfilled = True, confidence = 7 / 10,
            reasoning =
              ''Based on the evidence provided, the user appears to have fulfilled their promise. ''
              @ ''The data shows consistent activity patterns that align with the promise criteria.'',
            details = LlmNote ''This is a mock LLM evaluation for demonstration purposes.''\<rparr>)"

definition llm_evaluate :: "promise \<Rightarrow> evidence \<Rightarrow> error + verdict" where
  "llm_evaluate promise evidence =
     (case format_prompt promise evidence of
        Inl e \<Rightarrow> Inl e
      | Inr prompt \<Rightarrow> Inr (mock_llm_call prompt promise evidence))"

section \<open>Notions used in the statements\<close>

text \<open>The datetimes of the supported range, 0001-01-01 to 9999-12-31.\<close>

definition valid_datetime :: "datetime \<Rightarrow> bool" where
  "valid_datetime dt = (0 < toordinal dt \<and> toordinal dt \<le> MAXORDINAL)"

text \<open>An evidence item whose \<^verbatim>\<open>start_time\<close> parses.\<close>

definition start_parses :: "item \<Rightarrow> bool" where
  "start_parses it = (case start_time it of IsoString dt \<Rightarrow> valid_datetime dt | _ \<Rightarrow> False)"

text \<open>The parsed start and end of a session whose timestamps parse.\<close>

definition start_of :: "item \<Rightarrow> datetime" where
  "start_of it = (case start_time it of IsoString dt \<Rightarrow> dt | _ \<Rightarrow> 0)"

definition end_of :: "item \<Rightarrow> datetime" where
  "end_of it = (case end_time it of IsoString dt \<Rightarrow> dt | _ \<Rightarrow> 0)"

text \<open>
  The consistency rule in the words of the specification: the pairs of instants between
  which a gap is measured are promise start and first session start, each session end
  and the next session start, last session end and promise end; a gap is recorded for
  each pair more than \<open>max_gap\<close> whole days apart.
\<close>

definition gap_pairs :: "datetime \<Rightarrow> datetime \<Rightarrow> item list \<Rightarrow> (datetime \<times> datetime) list" where
  "gap_pairs start_date end_date sessions =
     zip (start_date # map end_of sessions) (map start_of sessions @ [end_date])"

definition spec_gaps :: "int \<Rightarrow> (datetime \<times> datetime) list \<Rightarrow> gap list" where
  "spec_gaps max_gap pairs =
     map (\<lambda>(a, b). \<lparr>gap_start = a, gap_end = b, gap_days = days (b - a)\<rparr>)
       (filter (\<lambda>(a, b). days (b - a) > max_gap) pairs)"


definition month_day_spec :: "bool \<Rightarrow> int \<Rightarrow> bool" where
  "month_day_spec lp n =
     (case month_day lp n of (m, d) \<Rightarrow> 1 \<le> m \<and> m \<le> 12 \<and> 1 \<le> d \<and>
        d \<le> (if m = 2 \<and> lp then 29 else DAYS_IN_MONTH ! nat m) \<and>
        DAYS_BEFORE_MONTH ! nat m + (if m > 2 \<and> lp then 1 else 0) + d = n + 1)"

text \<open>Concrete inputs.\<close>

definition session_at :: "datetime \<Rightarrow> int \<Rightarrow> item" where
  "session_at t minutes =
     \<lparr>start_time = IsoString t, end_time = IsoString (t + minutes * US_PER_MINUTE),
      duration_minutes = Some (of_int minutes), average_heart_rate = Some 130\<rparr>"

definition promise_of :: "string \<Rightarrow> datetime \<Rightarrow> datetime \<Rightarrow> promise" where
  "promise_of t s e =
     \<lparr>p_type = Some t, p_frequency = None, p_period = None, p_heart_rate_threshold = None,
      p_duration_minutes = None, p_max_gap_days = None,
      p_start_date = IsoString s, p_end_date = IsoString e\<rparr>"

definition no_evidence :: evidence where
  "no_evidence = \<lparr>heart_rate_data = [], exercise_sessions = None, elevated_hr_periods = None\<rparr>"

text \<open>A session both of whose timestamps parse.\<close>

definition times_parse :: "item \<Rightarrow> bool" where
  "times_parse it =
     (case start_time it of
        IsoString a \<Rightarrow> (case end_time it of IsoString b \<Rightarrow> True | _ \<Rightarrow> False)
      | _ \<Rightarrow> False)"

text \<open>The \<^verbatim>\<open>fulfilled\<close> field of a returned verdict.\<close>

definition result_fulfilled :: "result \<Rightarrow> bool option" where
  "result_fulfilled r = (case r of Some (Inr v) \<Rightarrow> Some (fulfilled v) | _ \<Rightarrow> None)"


definition two_week_evidence :: evidence where
  "two_week_evidence =
     \<lparr>heart_rate_data = [],
      exercise_sessions =
        Some [session_at (datetime_of 2023 1 2 0 0 0) 30,
              session_at (datetime_of 2023 1 3 0 0 0) 30,
              session_at (datetime_of 2023 1 4 0 0 0) 30,
              session_at (datetime_of 2023 1 9 0 0 0) 30,
              session_at (datetime_of 2023 1 10 0 0 0) 30],
      elevated_hr_periods = None\<rparr>"

text \<open>A promise whose start date lies after its end date.\<close>

definition reversed_promise :: promise where
  "reversed_promise =
     promise_of ''exercise_frequency'' (datetime_of 2023 2 1 0 0 0) (datetime_of 2023 1 1 0 0 0)"

text \<open>
  The consistency example of the specification: a window from day 0 (2023-01-01) to
  day 20 with half-hour sessions starting on day 0, day 5 and day 14, given out of order.
\<close>

definition gap_promise :: promise where
  "gap_promise =
     (promise_of ''exercise_consistency'' (datetime_of 2023 1 1 0 0 0)
        (datetime_of 2023 1 21 0 0 0))\<lparr>p_max_gap_days := Some 7\<rparr>"

definition gap_evidence :: evidence where
  "gap_evidence =
     \<lparr>heart_rate_data = [],
      exercise_sessions =
        Some [session_at (datetime_of 2023 1 15 0 0 0) 30,
              session_at (datetime_of 2023 1 1 0 0 0) 30,
              session_at (datetime_of 2023 1 6 0 0 0) 30],
      elevated_hr_periods = None\<rparr>"

text \<open>
  A duration promise for 2023-01-01 (threshold 120, at least 2 minutes, once per day)
  and evidence that holds heart-rate samples with an elevated stretch from 08:01 on, but
  no \<^verbatim>\<open>elevated_hr_periods\<close> key; \<open>detected_periods\<close> is what the detector finds
  in these samples.
\<close>

definition duration_promise :: promise where
  "duration_promise =
     (promise_of ''exercise_duration'' (datetime_of 2023 1 1 0 0 0)
        (datetime_of 2023 1 1 23 59 0))
       \<lparr>p_period := Some ''day'', p_heart_rate_threshold := Some 120,
        p_duration_minutes := Some 2\<rparr>"

definition heart_rate_evidence :: evidence where
  "heart_rate_evidence =
     \<lparr>heart_rate_data =
        minute_series (datetime_of 2023 1 1 8 0 0) [100, 130, 130, 130, 130, 100],
      exercise_sessions = None, elevated_hr_periods = None\<rparr>"

definition detected_periods :: "item list" where
  "detected_periods =
     [\<lparr>start_time = IsoString (datetime_of 2023 1 1 8 1 0),
       end_time = IsoString (datetime_of 2023 1 1 8 5 0),
       duration_minutes = Some 4, average_heart_rate = Some 124\<rparr>]"

section \<open>Calendar arithmetic\<close>

lemma month_day_ok:
  "\<forall>n \<in> set [0..364]. month_day_spec True n \<and> month_day_spec False n"
  by code_simp

lemma month_day_props:
  assumes "0 \<le> n" "n < 365"
  shows "month_day_spec lp n"
proof -
  have "n \<in> set [0..364]" using assms by simp
  with month_day_ok have "month_day_spec True n \<and> month_day_spec False n" by (rule bspec)
  then show ?thesis by (cases lp) simp_all
qed

lemma mod_zero_top:
  fixes x m :: int
  assumes "0 < x" "x \<le> m"
  shows "(x mod m = 0) = (x = m)"
proof (cases "x = m")
  case True then show ?thesis by simp
next
  case False
  with assms have "x < m" by simp
  with assms have "x mod m = x" by simp
  with assms False show ?thesis by simp
qed

lemma dby_decomp:
  assumes "0 \<le> n100" "n100 \<le> 3" "0 \<le> n4" "n4 \<le> 24" "0 \<le> n1" "n1 \<le> 3"
  shows "days_before_year (n400 * 400 + 1 + n100 * 100 + n4 * 4 + n1)
         = 146097 * n400 + 36524 * n100 + 1461 * n4 + 365 * n1"
proof -
  define y where "y = n400 * 400 + n100 * 100 + n4 * 4 + n1"
  have d4: "y div 4 = 100 * n400 + 25 * n100 + n4"
    by (rule int_div_pos_eq [where r = n1]) (use assms in \<open>simp_all add: y_def\<close>)
  have d100: "y div 100 = 4 * n400 + n100"
    by (rule int_div_pos_eq [where r = "4 * n4 + n1"]) (use assms in \<open>simp_all add: y_def\<close>)
  have d400: "y div 400 = n400"
    by (rule int_div_pos_eq [where r = "100 * n100 + 4 * n4 + n1"]) (use assms in \<open>simp_all add: y_def\<close>)
  have "n400 * 400 + 1 + n100 * 100 + n4 * 4 + n1 - 1 = y" by (simp add: y_def)
  then have "days_before_year (n400 * 400 + 1 + n100 * 100 + n4 * 4 + n1)
      = y * 365 + y div 4 - y div 100 + y div 400"
    unfolding days_before_year_def Let_def by simp
  also have "\<dots> = y * 365 + (100 * n400 + 25 * n100 + n4) - (4 * n400 + n100) + n400"
    by (simp only: d4 d100 d400)
  also have "\<dots> = 146097 * n400 + 36524 * n100 + 1461 * n4 + 365 * n1"
    by (simp add: y_def)
  finally show ?thesis .
qed

lemma leap_decomp:
  assumes "0 \<le> n100" "n100 \<le> 3" "0 \<le> n4" "n4 \<le> 24" "0 \<le> n1" "n1 \<le> 3"
  shows "is_leap (n400 * 400 + 1 + n100 * 100 + n4 * 4 + n1) = (n1 = 3 \<and> (n4 \<noteq> 24 \<or> n100 = 3))"
proof -
  define year where "year = n400 * 400 + 1 + n100 * 100 + n4 * 4 + n1"
  have m4: "year mod 4 = (n1 + 1) mod 4"
  proof -
    have "year = (n1 + 1) + (100 * n400 + 25 * n100 + n4) * 4" by (simp add: year_def)
    then show ?thesis by (simp only: mod_mult_self1)
  qed
  have m100: "year mod 100 = (4 * n4 + n1 + 1) mod 100"
  proof -
    have "year = (4 * n4 + n1 + 1) + (4 * n400 + n100) * 100" by (simp add: year_def)
    then show ?thesis by (simp only: mod_mult_self1)
  qed
  have m400: "year mod 400 = (100 * n100 + 4 * n4 + n1 + 1) mod 400"
  proof -
    have "year = (100 * n100 + 4 * n4 + n1 + 1) + n400 * 400" by (simp add: year_def)
    then show ?thesis by (simp only: mod_mult_self1)
  qed
  have a4: "((n1 + 1) mod 4 = 0) = (n1 = 3)"
    using mod_zero_top [of "n1 + 1" 4] assms by auto
  have "0 < 4 * n4 + n1 + 1" "4 * n4 + n1 + 1 \<le> 100" using assms by arith+
  then have "((4 * n4 + n1 + 1) mod 100 = 0) = (4 * n4 + n1 + 1 = 100)"
    by (rule mod_zero_top)
  also have "\<dots> = (n4 = 24 \<and> n1 = 3)" using assms by arith
  finally have a100: "((4 * n4 + n1 + 1) mod 100 = 0) = (n4 = 24 \<and> n1 = 3)" .
  have "0 < 100 * n100 + 4 * n4 + n1 + 1" "100 * n100 + 4 * n4 + n1 + 1 \<le> 400"
    using assms by arith+
  then have "((100 * n100 + 4 * n4 + n1 + 1) mod 400 = 0) = (100 * n100 + 4 * n4 + n1 + 1 = 400)"
    by (rule mod_zero_top)
  also have "\<dots> = (n100 = 3 \<and> n4 = 24 \<and> n1 = 3)" using assms by arith
  finally have a400:
    "((100 * n100 + 4 * n4 + n1 + 1) mod 400 = 0) = (n100 = 3 \<and> n4 = 24 \<and> n1 = 3)" .
  show ?thesis
    unfolding is_leap_def year_def [symmetric] m4 m100 m400 a4 a100 a400 by blast
qed


lemma ord2ymd_props:
  "case ord2ymd n of (y, m, d) \<Rightarrow>
     ymd2ord y m d = n \<and> 1 \<le> m \<and> m \<le> 12 \<and> 1 \<le> d \<and> d \<le> days_in_month y m"
proof -
  define a where "a = n - 1"
  define n400 where "n400 = a div 146097"
  define r400 where "r400 = a mod 146097"
  define n100 where "n100 = r400 div 36524"
  define r100 where "r100 = r400 mod 36524"
  define n4 where "n4 = r100 div 1461"
  define r4 where "r4 = r100 mod 1461"
  define n1 where "n1 = r4 div 365"
  define r1 where "r1 = r4 mod 365"
  define yr where "yr = n400 * 400 + 1 + n100 * 100 + n4 * 4 + n1"
  have e400: "a = 146097 * n400 + r400" by (simp add: n400_def r400_def)
  have e100: "r400 = 36524 * n100 + r100" by (simp add: n100_def r100_def)
  have e4: "r100 = 1461 * n4 + r4" by (simp add: n4_def r4_def)
  have e1: "r4 = 365 * n1 + r1" by (simp add: n1_def r1_def)
  have b400: "0 \<le> r400" "r400 < 146097" by (simp_all add: r400_def)
  have b100: "0 \<le> r100" "r100 < 36524" by (simp_all add: r100_def)
  have b4: "0 \<le> r4" "r4 < 1461" by (simp_all add: r4_def)
  have b1: "0 \<le> r1" "r1 < 365" by (simp_all add: r1_def)
  have c100: "0 \<le> n100" "n100 \<le> 4" using e100 b400 b100 by arith+
  have c4: "0 \<le> n4" "n4 \<le> 24" using e4 b100 b4 by arith+
  have c1: "0 \<le> n1" "n1 \<le> 4" using e1 b4 b1 by arith+
  have unf: "ord2ymd n =
      (if n1 = 4 \<or> n100 = 4 then (yr - 1, 12, 31)
       else (case month_day (n1 = 3 \<and> (n4 \<noteq> 24 \<or> n100 = 3)) r1 of (m, d) \<Rightarrow> (yr, m, d)))"
    unfolding ord2ymd_def Let_def
    by (simp only: a_def [symmetric] n400_def [symmetric] r400_def [symmetric]
          n100_def [symmetric] r100_def [symmetric] n4_def [symmetric] r4_def [symmetric]
          n1_def [symmetric] r1_def [symmetric] yr_def [symmetric])
  show ?thesis
  proof (cases "n100 = 4")
    case True
    then have z: "r100 = 0" "n4 = 0" "r4 = 0" "n1 = 0" "r1 = 0"
      using e100 e4 e1 b400 b100 b4 b1 c4 c1 by arith+
    have yform: "yr - 1 = n400 * 400 + 1 + 3 * 100 + 24 * 4 + 3"
      using True z by (simp add: yr_def)
    have dby: "days_before_year (yr - 1) = 146097 * n400 + 36524 * 3 + 1461 * 24 + 365 * 3"
      unfolding yform by (rule dby_decomp) simp_all
    have lp: "is_leap (yr - 1)"
      unfolding yform using leap_decomp [of 3 24 3 n400] by simp
    have "a = 146097 * n400 + 146096" using e400 e100 True z by simp
    then have "ymd2ord (yr - 1) 12 31 = n"
      using dby lp by (simp add: ymd2ord_def days_before_month_def DAYS_BEFORE_MONTH_def a_def)
    then show ?thesis using True unf by (simp add: days_in_month_def DAYS_IN_MONTH_def)
  next
    case n100: False
    then have c100': "n100 \<le> 3" using c100 by simp
    show ?thesis
    proof (cases "n1 = 4")
      case True
      then have z: "r1 = 0" using e1 b4 b1 by arith
      have n4': "n4 \<le> 23" using e4 e1 True z b100 by arith
      have yform: "yr - 1 = n400 * 400 + 1 + n100 * 100 + n4 * 4 + 3"
        using True by (simp add: yr_def)
      have dby: "days_before_year (yr - 1) = 146097 * n400 + 36524 * n100 + 1461 * n4 + 365 * 3"
        unfolding yform using c100 c100' c4 by (intro dby_decomp) simp_all
      have "is_leap (yr - 1) = (3 = (3::int) \<and> (n4 \<noteq> 24 \<or> n100 = 3))"
        unfolding yform using c100 c100' c4 by (intro leap_decomp) simp_all
      then have lp: "is_leap (yr - 1)" using n4' by simp
      have "a = 146097 * n400 + 36524 * n100 + 1461 * n4 + 1460"
        using e400 e100 e4 e1 True z by simp
      then have "ymd2ord (yr - 1) 12 31 = n"
        using dby lp by (simp add: ymd2ord_def days_before_month_def DAYS_BEFORE_MONTH_def a_def)
      then show ?thesis using True unf by (simp add: days_in_month_def DAYS_IN_MONTH_def)
    next
      case False
      then have c1': "n1 \<le> 3" using c1 by simp
      define lp where "lp = (n1 = 3 \<and> (n4 \<noteq> 24 \<or> n100 = 3))"
      obtain m d where md: "month_day lp r1 = (m, d)" by (cases "month_day lp r1")
      have spec: "month_day_spec lp r1" using b1 by (rule month_day_props)
      have dby: "days_before_year yr = 146097 * n400 + 36524 * n100 + 1461 * n4 + 365 * n1"
        unfolding yr_def using c100 c100' c4 c1 c1' by (intro dby_decomp) simp_all
      have leap: "is_leap yr = lp"
        unfolding yr_def lp_def using c100 c100' c4 c1 c1' by (intro leap_decomp) simp_all
      have aeq: "a = 146097 * n400 + 36524 * n100 + 1461 * n4 + 365 * n1 + r1"
        using e400 e100 e4 e1 by simp
      from spec md have p: "1 \<le> m" "m \<le> 12" "1 \<le> d"
        "d \<le> (if m = 2 \<and> lp then 29 else DAYS_IN_MONTH ! nat m)"
        "DAYS_BEFORE_MONTH ! nat m + (if m > 2 \<and> lp then 1 else 0) + d = r1 + 1"
        by (simp_all add: month_day_spec_def)
      have "ymd2ord yr m d = n"
        using dby leap aeq p(5) by (simp add: ymd2ord_def days_before_month_def a_def)
      moreover have "d \<le> days_in_month yr m"
        using p(4) leap by (simp add: days_in_month_def)
      moreover have "ord2ymd n = (yr, m, d)"
        using unf n100 False md by (simp add: lp_def)
      ultimately show ?thesis using p(1-3) by simp
    qed
  qed
qed


lemma ord2ymd_year_pos:
  assumes "1 \<le> n"
  shows "1 \<le> fst (ord2ymd n)"
proof -
  define a where "a = n - 1"
  define n400 where "n400 = a div 146097"
  define r400 where "r400 = a mod 146097"
  define n100 where "n100 = r400 div 36524"
  define r100 where "r100 = r400 mod 36524"
  define n4 where "n4 = r100 div 1461"
  define r4 where "r4 = r100 mod 1461"
  define n1 where "n1 = r4 div 365"
  define r1 where "r1 = r4 mod 365"
  define yr where "yr = n400 * 400 + 1 + n100 * 100 + n4 * 4 + n1"
  have "0 \<le> a" using assms by (simp add: a_def)
  then have c400: "0 \<le> n400" by (simp add: n400_def pos_imp_zdiv_nonneg_iff)
  have "0 \<le> r400" by (simp add: r400_def)
  then have c100: "0 \<le> n100" by (simp add: n100_def pos_imp_zdiv_nonneg_iff)
  have "0 \<le> r100" by (simp add: r100_def)
  then have c4: "0 \<le> n4" by (simp add: n4_def pos_imp_zdiv_nonneg_iff)
  have "0 \<le> r4" by (simp add: r4_def)
  then have c1: "0 \<le> n1" by (simp add: n1_def pos_imp_zdiv_nonneg_iff)
  have unf: "ord2ymd n =
      (if n1 = 4 \<or> n100 = 4 then (yr - 1, 12, 31)
       else (case month_day (n1 = 3 \<and> (n4 \<noteq> 24 \<or> n100 = 3)) r1 of (m, d) \<Rightarrow> (yr, m, d)))"
    unfolding ord2ymd_def Let_def
    by (simp only: a_def [symmetric] n400_def [symmetric] r400_def [symmetric]
          n100_def [symmetric] r100_def [symmetric] n4_def [symmetric] r4_def [symmetric]
          n1_def [symmetric] r1_def [symmetric] yr_def [symmetric])
  have y1: "1 \<le> yr" using c400 c100 c4 c1 by (simp add: yr_def)
  have y2: "n1 = 4 \<or> n100 = 4 \<Longrightarrow> 1 \<le> yr - 1" using c400 c100 c4 c1 by (auto simp: yr_def)
  show ?thesis using y1 y2 unf by (auto split: prod.splits)
qed

lemma days_before_year_lower:
  assumes "10000 \<le> y"
  shows "3652059 \<le> days_before_year y"
proof -
  define x where "x = y - 1"
  have a: "x - 3 \<le> 4 * (x div 4)" by presburger
  have b: "100 * (x div 100) \<le> x" by presburger
  have c: "x - 399 \<le> 400 * (x div 400)" by presburger
  have "9999 \<le> x" using assms by (simp add: x_def)
  with a b c have "3652059 \<le> x * 365 + x div 4 - x div 100 + x div 400" by arith
  then show ?thesis unfolding days_before_year_def Let_def x_def .
qed

lemma days_before_month_nonneg:
  assumes "1 \<le> m" "m \<le> 12"
  shows "0 \<le> days_before_month y m"
proof -
  have mem: "m \<in> set [1..12]" using assms by simp
  have "\<forall>m \<in> set [1..12]. 0 \<le> DAYS_BEFORE_MONTH ! nat m" by code_simp
  from this mem have "0 \<le> DAYS_BEFORE_MONTH ! nat m" by (rule bspec)
  then show ?thesis by (simp add: days_before_month_def)
qed

lemma ord2ymd_year_upper:
  assumes "n \<le> MAXORDINAL"
  shows "fst (ord2ymd n) \<le> 9999"
proof (rule ccontr)
  assume "\<not> fst (ord2ymd n) \<le> 9999"
  obtain y m d where ymd: "ord2ymd n = (y, m, d)" by (cases "ord2ymd n")
  with \<open>\<not> fst (ord2ymd n) \<le> 9999\<close> have "10000 \<le> y" by simp
  then have "3652059 \<le> days_before_year y" by (rule days_before_year_lower)
  moreover from ord2ymd_props [of n] ymd
  have p: "ymd2ord y m d = n" "1 \<le> m" "m \<le> 12" "1 \<le> d" by simp_all
  moreover have "0 \<le> days_before_month y m" using p(2,3) by (rule days_before_month_nonneg)
  ultimately have "3652059 < n" by (simp add: ymd2ord_def)
  with assms show False by (simp add: MAXORDINAL_def)
qed

lemma mk_datetime_of_date:
  assumes "valid_datetime dt"
  shows "mk_datetime (year dt) (month dt) (day dt) = Inr (toordinal dt * US_PER_DAY)"
proof -
  obtain y m d where ymd: "ord2ymd (toordinal dt) = (y, m, d)" by (cases "ord2ymd (toordinal dt)")
  from ord2ymd_props [of "toordinal dt"] ymd
  have p: "ymd2ord y m d = toordinal dt" "1 \<le> m" "m \<le> 12" "1 \<le> d" "d \<le> days_in_month y m"
    by simp_all
  have "1 \<le> y" using ord2ymd_year_pos [of "toordinal dt"] assms ymd
    by (simp add: valid_datetime_def)
  moreover have "y \<le> 9999" using ord2ymd_year_upper [of "toordinal dt"] assms ymd
    by (simp add: valid_datetime_def)
  ultimately show ?thesis using p ymd by (simp add: mk_datetime_def year_def month_def day_def)
qed

lemma mk_datetime_month_start:
  assumes "valid_datetime dt"
  shows "mk_datetime (year dt) (month dt) 1 = Inr ((toordinal dt - (day dt - 1)) * US_PER_DAY)"
proof -
  obtain y m d where ymd: "ord2ymd (toordinal dt) = (y, m, d)" by (cases "ord2ymd (toordinal dt)")
  from ord2ymd_props [of "toordinal dt"] ymd
  have p: "ymd2ord y m d = toordinal dt" "1 \<le> m" "m \<le> 12" "1 \<le> d" "d \<le> days_in_month y m"
    by simp_all
  have "1 \<le> y" using ord2ymd_year_pos [of "toordinal dt"] assms ymd
    by (simp add: valid_datetime_def)
  moreover have "y \<le> 9999" using ord2ymd_year_upper [of "toordinal dt"] assms ymd
    by (simp add: valid_datetime_def)
  moreover have "ymd2ord y m 1 = toordinal dt - (d - 1)" using p(1) by (simp add: ymd2ord_def)
  ultimately show ?thesis using p ymd by (simp add: mk_datetime_def year_def month_def day_def)
qed

lemma week_start_in_range:
  assumes "valid_datetime dt"
  shows "add_days dt (- weekday dt) = Inr (dt - weekday dt * US_PER_DAY)"
proof -
  define n where "n = toordinal dt"
  have n: "0 < n" "n \<le> MAXORDINAL" using assms by (simp_all add: valid_datetime_def n_def)
  have w: "0 \<le> (n + 6) mod 7" "(n + 6) mod 7 < 7" by simp_all
  have "1 \<le> n - (n + 6) mod 7" using n(1) by presburger
  moreover have "n - (n + 6) mod 7 \<le> MAXORDINAL" using n(2) w by arith
  moreover have "toordinal (dt + - weekday dt * US_PER_DAY) = n - (n + 6) mod 7"
    by (simp add: toordinal_def weekday_def n_def US_PER_DAY_def)
  ultimately show ?thesis by (simp add: add_days_def Let_def)
qed

lemma get_period_start_valid:
  assumes "valid_datetime dt"
  shows "\<exists>k. get_period_start dt period = Inr k"
  using assms mk_datetime_of_date [OF assms] mk_datetime_month_start [OF assms]
    week_start_in_range [OF assms]
  by (simp add: get_period_start_def)






section \<open>Properties of the period segmenter\<close>






lemma generate_periods_empty:
  "e < c \<Longrightarrow> generate_periods period e c ps = Some (Inr ps)"
  by (subst generate_periods.simps) simp




lemma group_items_empty:
  assumes "\<forall>it \<in> set items. start_parses it"
  shows "group_items period items [] = Inr []"
  using assms
proof (induction items)
  case Nil
  then show ?case by simp
next
  case (Cons it items)
  from Cons.prems obtain dt where dt: "start_time it = IsoString dt" "valid_datetime dt"
    by (auto simp: start_parses_def split: iso_field.splits)
  from get_period_start_valid [OF dt(2)] obtain k where "get_period_start dt period = Inr k"
    by blast
  with dt Cons show ?case by simp
qed





section \<open>Dispatch on the promise type\<close>

lemma evaluate_unknown:
  assumes "p_type p \<notin> {Some ''exercise_frequency'', Some ''exercise_duration'',
                        Some ''exercise_consistency''}"
  shows "evaluate init_evaluator p e = Some (Inr (unknown_type_verdict (p_type p)))"
proof (cases "p_type p")
  case None
  then show ?thesis by (simp add: evaluate_def)
next
  case (Some t)
  with assms have "t \<noteq> ''exercise_frequency''" "t \<noteq> ''exercise_duration''"
    "t \<noteq> ''exercise_consistency''" by auto
  then have "map_of (rule_handlers init_evaluator) t = None"
    by (simp add: init_evaluator_def)
  with Some show ?thesis by (simp add: evaluate_def)
qed

lemma evaluate_known:
  "evaluate init_evaluator p e =
     (if p_type p = Some ''exercise_frequency'' then evaluate_exercise_frequency p e
      else if p_type p = Some ''exercise_duration'' then evaluate_exercise_duration p e
      else if p_type p = Some ''exercise_consistency'' then evaluate_exercise_consistency p e
      else Some (Inr (unknown_type_verdict (p_type p))))"
proof (cases "p_type p \<in> {Some ''exercise_frequency'', Some ''exercise_duration'',
                        Some ''exercise_consistency''}")
  case False
  then show ?thesis using evaluate_unknown [of p e] by auto
next
  case True
  then show ?thesis by (auto simp: evaluate_def init_evaluator_def)
qed

section \<open>The detector on the sample series of the specification\<close>

text \<open>
  C1 (as stated): on the series 100, 100, 130, 130, 130, 100 at one-minute spacing with
  threshold 120 and minimum duration 2, the detector returns one interval of duration 2
  and average 130.  On the series starting at 2023-01-01T08:00:00 the code returns one
  interval whose duration is 3 and whose average is 122.5.
\<close>

theorem detector_example_counterexample:
  "check_continuous_elevated_heart_rate
     (minute_series (datetime_of 2023 1 1 8 0 0) [100, 100, 130, 130, 130, 100]) 120 2
   = Inr [\<lparr>start_time = IsoString (datetime_of 2023 1 1 8 2 0),
           end_time = IsoString (datetime_of 2023 1 1 8 5 0),
           duration_minutes = Some 3, average_heart_rate = Some (245 / 2)\<rparr>]
   \<and> Some (3 :: rat) \<noteq> Some 2 \<and> Some (245 / 2 :: rat) \<noteq> Some 130"
  by (simp add: check_continuous_elevated_heart_rate_def elevated_period_def
        calculate_average_hr_def total_minutes_def US_PER_MINUTE_def datetime_of_def)

text \<open>
  C1 (amended): for every start time \<open>t0\<close> the detector returns exactly one interval.
  It starts at the first 130-sample and ends at the timestamp of the closing 100-sample,
  so its duration is 3 minutes and its average, taken over the three 130-samples and the
  closing sample, is 122.5.  The comparison with the minimum duration is inclusive: with
  a minimum of 3 the same interval is returned, with a minimum of 4 none is.
\<close>

theorem detector_example:
  "check_continuous_elevated_heart_rate (minute_series t0 [100, 100, 130, 130, 130, 100]) 120 2
     = Inr [\<lparr>start_time = IsoString (t0 + 2 * US_PER_MINUTE),
             end_time = IsoString (t0 + 5 * US_PER_MINUTE),
             duration_minutes = Some 3, average_heart_rate = Some (245 / 2)\<rparr>]
   \<and> check_continuous_elevated_heart_rate (minute_series t0 [100, 100, 130, 130, 130, 100]) 120 3
     = check_continuous_elevated_heart_rate (minute_series t0 [100, 100, 130, 130, 130, 100]) 120 2
   \<and> check_continuous_elevated_heart_rate (minute_series t0 [100, 100, 130, 130, 130, 100]) 120 4
     = Inr []"
  by (simp add: check_continuous_elevated_heart_rate_def elevated_period_def
        calculate_average_hr_def total_minutes_def US_PER_MINUTE_def)

section \<open>Duration promises without precomputed intervals\<close>

text \<open>
  C2 (as stated): when the evidence has heart-rate samples but no
  \<^verbatim>\<open>elevated_hr_periods\<close> key, the duration evaluator runs the detector on the
  samples and evaluates its intervals.  On the evidence above the detector finds a
  qualifying interval, and the promise is fulfilled when that interval is supplied, but
  the evaluator returns \<open>fulfilled = False\<close> for the evidence as it is.
\<close>

theorem duration_detector_counterexample:
  "check_continuous_elevated_heart_rate (heart_rate_data heart_rate_evidence) 120 2
     = Inr detected_periods
   \<and> result_fulfilled (evaluate init_evaluator duration_promise heart_rate_evidence) = Some False
   \<and> result_fulfilled
        (evaluate init_evaluator duration_promise
           (heart_rate_evidence\<lparr>elevated_hr_periods := Some detected_periods\<rparr>)) = Some True"
  by code_simp

text \<open>
  C2 (amended): for every duration promise and evidence without the
  \<^verbatim>\<open>elevated_hr_periods\<close> key, the evaluator does not run the detector: its result
  is the one for an empty interval list, whatever \<^verbatim>\<open>heart_rate_data\<close> holds.
\<close>

theorem duration_without_elevated_periods:
  assumes "p_type p = Some ''exercise_duration''" "elevated_hr_periods ev = None"
  shows "evaluate init_evaluator p ev
         = evaluate init_evaluator p (ev\<lparr>heart_rate_data := hr, elevated_hr_periods := Some []\<rparr>)"
  using assms
  by (simp add: evaluate_known evaluate_exercise_duration_def get_default_def
      cong: sum.case_cong option.case_cong)

theorem duration_without_elevated_periods_witness:
  "evaluate init_evaluator duration_promise heart_rate_evidence
   = evaluate init_evaluator duration_promise
       (heart_rate_evidence\<lparr>heart_rate_data := [], elevated_hr_periods := Some []\<rparr>)"
proof -
  have h1: "p_type duration_promise = Some ''exercise_duration''"
    by (simp add: duration_promise_def promise_of_def)
  have h2: "elevated_hr_periods heart_rate_evidence = None"
    by (simp add: heart_rate_evidence_def)
  from duration_without_elevated_periods [OF h1 h2] show ?thesis .
qed

section \<open>Period starts\<close>

text \<open>
  C3: the first generated period, and the bucket of an item, start at \<open>get_period_start\<close>
  of the timestamp.  For Wednesday 2023-01-04T10:30:00 the day start is that day's
  midnight and the month start is the first of January at midnight, but the week start
  is Monday 2023-01-02 at 10:30:00, not at midnight: the week branch subtracts whole days
  and keeps the time of day.
\<close>

theorem week_start_keeps_time_of_day:
  "get_period_start (datetime_of 2023 1 4 10 30 0) ''week'' = Inr (datetime_of 2023 1 2 10 30 0)
   \<and> datetime_of 2023 1 2 10 30 0 \<noteq> datetime_of 2023 1 2 0 0 0
   \<and> get_period_start (datetime_of 2023 1 4 10 30 0) ''day'' = Inr (datetime_of 2023 1 4 0 0 0)
   \<and> get_period_start (datetime_of 2023 1 4 10 30 0) ''month'' = Inr (datetime_of 2023 1 1 0 0 0)"
  by code_simp

section \<open>Frequency and duration verdicts\<close>

lemma group_by_period_empty:
  assumes "e < s" "\<forall>it \<in> set items. start_parses it"
  shows "group_by_period items period s e = Some (Inr [])"
  using assms by (simp add: group_by_period_def generate_periods_empty group_items_empty)

lemma frequency_zero_periods:
  assumes "p_start_date p = IsoString s" "p_end_date p = IsoString e" "e < s"
    "\<forall>it \<in> set (get_default (exercise_sessions ev) []). start_parses it"
  shows "\<exists>v. evaluate_exercise_frequency p ev = Some (Inr v) \<and> \<not> fulfilled v
           \<and> confidence v = 1 \<and> total_periods (details v) = Some 0"
  using assms group_by_period_empty [OF assms(3,4)]
  by (simp add: evaluate_exercise_frequency_def fulfillment_def Let_def)

lemma duration_zero_periods:
  assumes "p_start_date p = IsoString s" "p_end_date p = IsoString e" "e < s"
    "\<forall>it \<in> set (get_default (elevated_hr_periods ev) []). start_parses it"
  shows "\<exists>v. evaluate_exercise_duration p ev = Some (Inr v) \<and> \<not> fulfilled v
           \<and> confidence v = 1 \<and> total_periods (details v) = Some 0"
proof -
  let ?q = "filter (qualifying (get_default (p_heart_rate_threshold p) 120)
                      (get_default (p_duration_minutes p) 25))
              (get_default (elevated_hr_periods ev) [])"
  have "\<forall>it \<in> set ?q. start_parses it" using assms(4) by simp
  with assms(3) have "group_by_period ?q (get_default (p_period p) ''week'') s e = Some (Inr [])"
    by (rule group_by_period_empty)
  with assms(1,2) show ?thesis
    by (simp add: evaluate_exercise_duration_def fulfillment_def Let_def)
qed

text \<open>
  C10: for a frequency or duration promise whose start date lies after its end date,
  and evidence whose item timestamps parse (the sessions for a frequency promise, the
  elevated periods for a duration promise), the evaluator returns a verdict with
  \<open>fulfilled\<close> false, \<open>confidence\<close> 1.0 and \<open>total_periods\<close> 0.  The division
  of the fulfilment percentage raises when its divisor is zero in this model, so the
  returned verdict shows that no division by zero takes place.
\<close>

theorem zero_periods_verdict:
  assumes "p_type p = Some ''exercise_frequency'' \<or> p_type p = Some ''exercise_duration''"
    "p_start_date p = IsoString s" "p_end_date p = IsoString e" "e < s"
    "p_type p = Some ''exercise_frequency''
       \<Longrightarrow> \<forall>it \<in> set (get_default (exercise_sessions ev) []). start_parses it"
    "p_type p = Some ''exercise_duration''
       \<Longrightarrow> \<forall>it \<in> set (get_default (elevated_hr_periods ev) []). start_parses it"
  shows "\<exists>v. evaluate init_evaluator p ev = Some (Inr v) \<and> \<not> fulfilled v
           \<and> confidence v = 1 \<and> total_periods (details v) = Some 0"
  using assms(1)
proof
  assume t: "p_type p = Some ''exercise_frequency''"
  then have "evaluate init_evaluator p ev = evaluate_exercise_frequency p ev"
    by (simp add: evaluate_known)
  with frequency_zero_periods [OF assms(2,3,4) assms(5) [OF t]] show ?thesis by simp
next
  assume t: "p_type p = Some ''exercise_duration''"
  then have "evaluate init_evaluator p ev = evaluate_exercise_duration p ev"
    by (simp add: evaluate_known)
  with duration_zero_periods [OF assms(2,3,4) assms(6) [OF t]] show ?thesis by simp
qed






theorem zero_periods_verdict_witness:
  "\<exists>v. evaluate init_evaluator reversed_promise two_week_evidence = Some (Inr v)
        \<and> \<not> fulfilled v \<and> confidence v = 1 \<and> total_periods (details v) = Some 0"
proof -
  have h1: "p_type reversed_promise = Some ''exercise_frequency''
      \<or> p_type reversed_promise = Some ''exercise_duration''"
    by (simp add: reversed_promise_def promise_of_def)
  have h2: "p_start_date reversed_promise = IsoString (datetime_of 2023 2 1 0 0 0)"
    by (simp add: reversed_promise_def promise_of_def)
  have h3: "p_end_date reversed_promise = IsoString (datetime_of 2023 1 1 0 0 0)"
    by (simp add: reversed_promise_def promise_of_def)
  have h4: "datetime_of 2023 1 1 0 0 0 < datetime_of 2023 2 1 0 0 0"
    by code_simp
  have h5: "\<forall>it \<in> set (get_default (exercise_sessions two_week_evidence) []). start_parses it"
    by code_simp
  have h6: "\<forall>it \<in> set (get_default (elevated_hr_periods two_week_evidence) []). start_parses it"
    by (simp add: two_week_evidence_def get_default_def)
  from zero_periods_verdict [OF h1 h2 h3 h4 h5 h6] show ?thesis .
qed

section \<open>Unknown promise types\<close>



section \<open>Consistency verdicts\<close>

lemma times_parse_fields:
  assumes "times_parse it"
  shows "fromisoformat (start_time it) = Inr (start_of it)"
    and "fromisoformat (end_time it) = Inr (end_of it)"
  using assms
  by (auto simp: times_parse_def start_of_def end_of_def split: iso_field.splits)

lemma sort_keys_parsed:
  assumes "\<forall>it \<in> set ss. times_parse it"
  shows "sort_keys ss = Inr (map (\<lambda>s. (start_of s, s)) ss)"
  using assms by (induction ss) (simp_all add: times_parse_fields)

lemma insort_key_decorated:
  "insort_key fst (f x, x) (map (\<lambda>s. (f s, s)) ys) = map (\<lambda>s. (f s, s)) (insort_key f x ys)"
  by (induction ys) simp_all

lemma sort_key_decorated:
  "sort_key fst (map (\<lambda>s. (f s, s)) xs) = map (\<lambda>s. (f s, s)) (sort_key f xs)"
  by (induction xs) (simp_all add: insort_key_decorated)

lemma sorted_sessions_parsed:
  assumes "\<forall>it \<in> set ss. times_parse it"
  shows "sorted_sessions ss = Inr (sort_key start_of ss)"
  by (simp add: sorted_sessions_def sort_keys_parsed [OF assms] sort_key_decorated comp_def)

lemma spec_gaps_append: "spec_gaps mg (xs @ ys) = spec_gaps mg xs @ spec_gaps mg ys"
  by (simp add: spec_gaps_def)

lemma find_gaps_parsed:
  assumes "\<forall>it \<in> set ss. times_parse it"
  shows "find_gaps mg ss (gaps, l)
         = Inr (gaps @ spec_gaps mg (zip (l # map end_of ss) (map start_of ss)),
                last (l # map end_of ss))"
  using assms
proof (induction ss arbitrary: gaps l)
  case Nil
  then show ?case by (simp add: spec_gaps_def)
next
  case (Cons x ss)
  then have x: "times_parse x" and ss: "\<forall>it \<in> set ss. times_parse it" by simp_all
  show ?case
    using Cons.IH [OF ss] by (simp add: times_parse_fields [OF x] Let_def spec_gaps_def)
qed

lemma zip_snoc_last:
  "zip (l # map f ss) (map g ss @ [e]) = zip (l # map f ss) (map g ss) @ [(last (l # map f ss), e)]"
  by (induction ss arbitrary: l) simp_all

text \<open>
  C6: for a consistency promise whose timestamps and session timestamps parse, the
  evaluator returns a verdict.  With the sessions sorted ascending by start time (a
  stable sort), the recorded gaps are exactly the pairs of instants more than
  \<open>max_gap_days\<close> whole days apart among: promise start and first session start, each
  session end and the next session start, last session end and promise end (with no
  session at all, the one pair is promise start and promise end).  \<open>fulfilled\<close> holds
  exactly when no gap is recorded.
\<close>

theorem consistency_gaps:
  assumes "p_type p = Some ''exercise_consistency''"
    "p_start_date p = IsoString s" "p_end_date p = IsoString e"
    "\<forall>it \<in> set (get_default (exercise_sessions ev) []). times_parse it"
  shows "\<exists>v. evaluate init_evaluator p ev = Some (Inr v)
           \<and> sorted (map start_of (sort_key start_of (get_default (exercise_sessions ev) [])))
           \<and> details v =
               ConsistencyDetails (get_default (p_max_gap_days p) 7)
                 (length (spec_gaps (get_default (p_max_gap_days p) 7)
                    (gap_pairs s e (sort_key start_of (get_default (exercise_sessions ev) [])))))
                 (spec_gaps (get_default (p_max_gap_days p) 7)
                    (gap_pairs s e (sort_key start_of (get_default (exercise_sessions ev) []))))
           \<and> (fulfilled v \<longleftrightarrow>
                spec_gaps (get_default (p_max_gap_days p) 7)
                  (gap_pairs s e (sort_key start_of (get_default (exercise_sessions ev) []))) = [])"
proof -
  let ?mg = "get_default (p_max_gap_days p) 7"
  let ?ss = "sort_key start_of (get_default (exercise_sessions ev) [])"
  let ?l = "last (s # map end_of ?ss)"
  have ev: "evaluate init_evaluator p ev = evaluate_exercise_consistency p ev"
    using assms(1) by (simp add: evaluate_known)
  have srt: "sorted_sessions (get_default (exercise_sessions ev) []) = Inr ?ss"
    using assms(4) by (rule sorted_sessions_parsed)
  have "\<forall>it \<in> set ?ss. times_parse it" using assms(4) by simp
  then have fg: "find_gaps ?mg ?ss ([], s)
      = Inr (spec_gaps ?mg (zip (s # map end_of ?ss) (map start_of ?ss)), ?l)"
    using find_gaps_parsed [of ?ss ?mg "[]" s] by simp
  have pairs: "spec_gaps ?mg (gap_pairs s e ?ss)
      = spec_gaps ?mg (zip (s # map end_of ?ss) (map start_of ?ss))
        @ (if days (e - ?l) > ?mg
           then [\<lparr>gap_start = ?l, gap_end = e, gap_days = days (e - ?l)\<rparr>] else [])"
    unfolding gap_pairs_def zip_snoc_last spec_gaps_append by (simp add: spec_gaps_def)
  have "sorted (map start_of ?ss)" by (rule sorted_sort_key)
  moreover have "evaluate_exercise_consistency p ev
      = Some (Inr \<lparr>fulfilled = (length (spec_gaps ?mg (gap_pairs s e ?ss)) = 0),
                   confidence = 1,
                   reasoning = consistency_reasoning ?mg
                                 (length (spec_gaps ?mg (gap_pairs s e ?ss))),
                   details = ConsistencyDetails ?mg (length (spec_gaps ?mg (gap_pairs s e ?ss)))
                               (spec_gaps ?mg (gap_pairs s e ?ss))\<rparr>)"
    unfolding pairs
    by (simp add: evaluate_exercise_consistency_def assms(2,3) srt fg Let_def)
  ultimately show ?thesis unfolding ev by simp
qed

theorem consistency_gaps_witness:
  "\<exists>v. evaluate init_evaluator gap_promise gap_evidence = Some (Inr v)
      \<and> \<not> fulfilled v
      \<and> details v =
          ConsistencyDetails 7 1
            [\<lparr>gap_start = datetime_of 2023 1 6 0 30 0, gap_end = datetime_of 2023 1 15 0 0 0,
              gap_days = 8\<rparr>]"
proof -
  have h1: "p_type gap_promise = Some ''exercise_consistency''"
    by (simp add: gap_promise_def promise_of_def)
  have h2: "p_start_date gap_promise = IsoString (datetime_of 2023 1 1 0 0 0)"
    by (simp add: gap_promise_def promise_of_def)
  have h3: "p_end_date gap_promise = IsoString (datetime_of 2023 1 21 0 0 0)"
    by (simp add: gap_promise_def promise_of_def)
  have h4: "\<forall>it \<in> set (get_default (exercise_sessions gap_evidence) []). times_parse it"
    by code_simp
  have g: "spec_gaps 7
             (gap_pairs (datetime_of 2023 1 1 0 0 0) (datetime_of 2023 1 21 0 0 0)
                (sort_key start_of (get_default (exercise_sessions gap_evidence) [])))
           = [\<lparr>gap_start = datetime_of 2023 1 6 0 30 0, gap_end = datetime_of 2023 1 15 0 0 0,
                gap_days = 8\<rparr>]"
    by code_simp
  have m: "get_default (p_max_gap_days gap_promise) 7 = 7"
    by (simp add: gap_promise_def get_default_def)
  from consistency_gaps [OF h1 h2 h3 h4] show ?thesis unfolding m g by auto
qed

section \<open>Confidence\<close>

lemma frequency_confidence:
  "evaluate_exercise_frequency p e = Some (Inr v) \<Longrightarrow> confidence v = 1"
  by (auto simp: evaluate_exercise_frequency_def Let_def
      split: sum.splits option.splits prod.splits)

lemma duration_confidence:
  "evaluate_exercise_duration p e = Some (Inr v) \<Longrightarrow> confidence v = 1"
  by (auto simp: evaluate_exercise_duration_def Let_def
      split: sum.splits option.splits prod.splits)

lemma consistency_confidence:
  "evaluate_exercise_consistency p e = Some (Inr v) \<Longrightarrow> confidence v = 1"
  by (auto simp: evaluate_exercise_consistency_def Let_def
      split: sum.splits option.splits prod.splits)

lemma mock_confidence: "confidence (mock_llm_call prompt p e) < 1"
  by (simp add: mock_llm_call_def Let_def)

lemma llm_confidence: "llm_evaluate p e = Inr w \<Longrightarrow> confidence w < 1"
proof -
  assume a: "llm_evaluate p e = Inr w"
  then obtain prompt where "w = mock_llm_call prompt p e"
    by (cases "format_prompt p e") (auto simp: llm_evaluate_def)
  then show ?thesis by (simp only: mock_confidence)
qed

text \<open>
  C7 (as stated): every verdict of the rule-based evaluator has confidence 1.0.  For a
  promise of the unknown type \<open>foo\<close> the rule-based \<open>evaluate\<close> returns a verdict of
  confidence 0.0.
\<close>

theorem rule_based_confidence_counterexample:
  "evaluate init_evaluator
     (promise_of ''foo'' (datetime_of 2023 1 1 0 0 0) (datetime_of 2023 1 31 0 0 0)) no_evidence
   = Some (Inr \<lparr>fulfilled = False, confidence = 0,
                reasoning = ''Unknown promise type: foo'', details = NoDetails\<rparr>)
   \<and> (0 :: rat) \<noteq> 1"
  by (simp add: evaluate_known promise_of_def unknown_type_verdict_def str_type_def)

text \<open>
  C7 (amended): every verdict returned by the rule-based \<open>evaluate\<close> has confidence
  1.0 when the promise has one of the three rule types and 0.0 otherwise, and every
  verdict returned by the interpretive evaluator has a confidence below 1.0.
\<close>

theorem confidence_by_evaluator:
  "(evaluate init_evaluator p e = Some (Inr v) \<longrightarrow>
      confidence v = (if p_type p \<in> {Some ''exercise_frequency'', Some ''exercise_duration'',
                                      Some ''exercise_consistency''} then 1 else 0))
   \<and> (llm_evaluate p e = Inr w \<longrightarrow> confidence w < 1)"
proof (intro conjI impI)
  assume "llm_evaluate p e = Inr w"
  then show "confidence w < 1" by (rule llm_confidence)
next
  assume r: "evaluate init_evaluator p e = Some (Inr v)"
  consider (f) "p_type p = Some ''exercise_frequency''"
    | (d) "p_type p = Some ''exercise_duration''"
    | (c) "p_type p = Some ''exercise_consistency''"
    | (u) "p_type p \<notin> {Some ''exercise_frequency'', Some ''exercise_duration'',
                         Some ''exercise_consistency''}"
    by blast
  then show "confidence v = (if p_type p \<in> {Some ''exercise_frequency'',
      Some ''exercise_duration'', Some ''exercise_consistency''} then 1 else 0)"
  proof cases
    case f
    with r have "evaluate_exercise_frequency p e = Some (Inr v)" by (simp add: evaluate_known)
    then show ?thesis using f by (simp add: frequency_confidence)
  next
    case d
    with r have "evaluate_exercise_duration p e = Some (Inr v)" by (simp add: evaluate_known)
    then show ?thesis using d by (simp add: duration_confidence)
  next
    case c
    with r have "evaluate_exercise_consistency p e = Some (Inr v)" by (simp add: evaluate_known)
    then show ?thesis using c by (simp add: consistency_confidence)
  next
    case u
    with r evaluate_unknown [OF u, of e] show ?thesis by (auto simp: unknown_type_verdict_def)
  qed
qed

theorem confidence_by_evaluator_witness:
  "evaluate init_evaluator
     (promise_of ''exercise_consistency'' (datetime_of 2023 1 1 0 0 0) (datetime_of 2023 1 5 0 0 0))
     no_evidence
   = Some (Inr \<lparr>fulfilled = True, confidence = 1,
                reasoning = consistency_reasoning 7 0, details = ConsistencyDetails 7 0 []\<rparr>)
   \<and> llm_evaluate
     (promise_of ''exercise_consistency'' (datetime_of 2023 1 1 0 0 0) (datetime_of 2023 1 5 0 0 0))
     no_evidence
   = Inr (mock_llm_call
       (promise_of ''exercise_consistency'' (datetime_of 2023 1 1 0 0 0)
          (datetime_of 2023 1 5 0 0 0), [])
       (promise_of ''exercise_consistency'' (datetime_of 2023 1 1 0 0 0) (datetime_of 2023 1 5 0 0 0))
       no_evidence)
   \<and> confidence \<lparr>fulfilled = True, confidence = 1,
                reasoning = consistency_reasoning 7 0, details = ConsistencyDetails 7 0 []\<rparr> = 1
   \<and> confidence (mock_llm_call
       (promise_of ''exercise_consistency'' (datetime_of 2023 1 1 0 0 0)
          (datetime_of 2023 1 5 0 0 0), [])
       (promise_of ''exercise_consistency'' (datetime_of 2023 1 1 0 0 0) (datetime_of 2023 1 5 0 0 0))
       no_evidence) < 1"
proof -
  let ?p = "promise_of ''exercise_consistency'' (datetime_of 2023 1 1 0 0 0)
              (datetime_of 2023 1 5 0 0 0)"
  let ?v = "\<lparr>fulfilled = True, confidence = 1,
             reasoning = consistency_reasoning 7 0, details = ConsistencyDetails 7 0 []\<rparr>"
  have d: "days (datetime_of 2023 1 5 0 0 0 - datetime_of 2023 1 1 0 0 0) = 4"
    by code_simp
  have r: "evaluate init_evaluator ?p no_evidence = Some (Inr ?v)"
    by (simp add: evaluate_known promise_of_def no_evidence_def evaluate_exercise_consistency_def
          get_default_def sorted_sessions_def d)
  have l: "llm_evaluate ?p no_evidence = Inr (mock_llm_call (?p, []) ?p no_evidence)"
    by (simp add: llm_evaluate_def format_prompt_def summarize_evidence_def no_evidence_def
          get_default_def)
  from confidence_by_evaluator [of ?p no_evidence ?v "mock_llm_call (?p, []) ?p no_evidence"] r l
  show ?thesis by (simp add: promise_of_def)
qed

section \<open>Defaults\<close>

lemma evaluate_cong:
  assumes "p_type p = p_type q"
    "evaluate_exercise_frequency p e = evaluate_exercise_frequency q e"
    "evaluate_exercise_duration p e = evaluate_exercise_duration q e"
    "evaluate_exercise_consistency p e = evaluate_exercise_consistency q e"
  shows "evaluate init_evaluator p e = evaluate init_evaluator q e"
  using assms by (simp add: evaluate_known)

text \<open>
  C8: for every promise and evidence, \<open>evaluate\<close> gives the same result (the same
  verdict, or the same failure) when a parameter is absent as when it is set to its
  default: frequency 1, period week, heart-rate threshold 120, duration 25 minutes,
  maximal gap 7 days.  So the absence of a parameter is never the cause of an error.
\<close>

theorem missing_parameter_default:
  "evaluate init_evaluator (p\<lparr>p_frequency := None\<rparr>) e
     = evaluate init_evaluator (p\<lparr>p_frequency := Some 1\<rparr>) e
   \<and> evaluate init_evaluator (p\<lparr>p_period := None\<rparr>) e
     = evaluate init_evaluator (p\<lparr>p_period := Some ''week''\<rparr>) e
   \<and> evaluate init_evaluator (p\<lparr>p_heart_rate_threshold := None\<rparr>) e
     = evaluate init_evaluator (p\<lparr>p_heart_rate_threshold := Some 120\<rparr>) e
   \<and> evaluate init_evaluator (p\<lparr>p_duration_minutes := None\<rparr>) e
     = evaluate init_evaluator (p\<lparr>p_duration_minutes := Some 25\<rparr>) e
   \<and> evaluate init_evaluator (p\<lparr>p_max_gap_days := None\<rparr>) e
     = evaluate init_evaluator (p\<lparr>p_max_gap_days := Some 7\<rparr>) e"
proof (intro conjI)
  show "evaluate init_evaluator (p\<lparr>p_frequency := None\<rparr>) e
     = evaluate init_evaluator (p\<lparr>p_frequency := Some 1\<rparr>) e"
    by (rule evaluate_cong)
      (simp_all add: evaluate_exercise_frequency_def evaluate_exercise_duration_def
        evaluate_exercise_consistency_def get_default_def
        cong: sum.case_cong option.case_cong)
  show "evaluate init_evaluator (p\<lparr>p_period := None\<rparr>) e
     = evaluate init_evaluator (p\<lparr>p_period := Some ''week''\<rparr>) e"
    by (rule evaluate_cong)
      (simp_all add: evaluate_exercise_frequency_def evaluate_exercise_duration_def
        evaluate_exercise_consistency_def get_default_def
        cong: sum.case_cong option.case_cong)
  show "evaluate init_evaluator (p\<lparr>p_heart_rate_threshold := None\<rparr>) e
     = evaluate init_evaluator (p\<lparr>p_heart_rate_threshold := Some 120\<rparr>) e"
    by (rule evaluate_cong)
      (simp_all add: evaluate_exercise_frequency_def evaluate_exercise_duration_def
        evaluate_exercise_consistency_def get_default_def
        cong: sum.case_cong option.case_cong)
  show "evaluate init_evaluator (p\<lparr>p_duration_minutes := None\<rparr>) e
     = evaluate init_evaluator (p\<lparr>p_duration_minutes := Some 25\<rparr>) e"
    by (rule evaluate_cong)
      (simp_all add: evaluate_exercise_frequency_def evaluate_exercise_duration_def
        evaluate_exercise_consistency_def get_default_def
        cong: sum.case_cong option.case_cong)
  show "evaluate init_evaluator (p\<lparr>p_max_gap_days := None\<rparr>) e
     = evaluate init_evaluator (p\<lparr>p_max_gap_days := Some 7\<rparr>) e"
    by (rule evaluate_cong)
      (simp_all add: evaluate_exercise_frequency_def evaluate_exercise_duration_def
        evaluate_exercise_consistency_def get_default_def
        cong: sum.case_cong option.case_cong)
qed

end
